theory Spec2Isabelle
  imports Complex_Main "HOL-Library.Signed_Division" "HOL-Library.Word"
begin

section \<open>Errors raised by the library\<close>

text \<open>
  The C++ code raises exceptions; the embedding returns them as values of a sum type,
  \<open>Inl\<close> for the exception. The constructors keep what the throwing call passes:
  the name of the function, the name of the offending argument and the values compared.
\<close>

datatype arith = NaN | NegInf | Fin real | PosInf

datatype error =
    DomainError string string arith arith
  | SizeMismatch string string int string int
  | InvalidArgument string
  | NonzeroSizeError string string
  | NotSquareError string string nat nat
  | NegativeDimension int
  | UndefinedRead

section \<open>\<open>acosh\<close> on arithmetic arguments (prim/fun/acosh.hpp)\<close>

text \<open>
  An arithmetic argument is a finite real, one of the two infinities or NaN. Comparisons
  follow IEEE 754: every comparison with NaN is false.
\<close>

fun is_nan :: "arith \<Rightarrow> bool" where
  "is_nan NaN = True"
| "is_nan _ = False"

fun is_inf :: "arith \<Rightarrow> bool" where
  "is_inf NegInf = True"
| "is_inf PosInf = True"
| "is_inf _ = False"

fun arith_ge :: "arith \<Rightarrow> arith \<Rightarrow> bool" where
  "arith_ge NaN _ = False"
| "arith_ge _ NaN = False"
| "arith_ge PosInf _ = True"
| "arith_ge _ NegInf = True"
| "arith_ge NegInf _ = False"
| "arith_ge _ PosInf = False"
| "arith_ge (Fin a) (Fin b) = (b \<le> a)"

fun arith_lt :: "arith \<Rightarrow> arith \<Rightarrow> bool" where
  "arith_lt NaN _ = False"
| "arith_lt _ NaN = False"
| "arith_lt PosInf _ = False"
| "arith_lt _ NegInf = False"
| "arith_lt NegInf _ = True"
| "arith_lt _ PosInf = True"
| "arith_lt (Fin a) (Fin b) = (a < b)"

text \<open>
  Modelled from the spec: \<open>check_greater_or_equal\<close> (prim/err) is not among the sources at
  hand. Section 7 of the spec: a domain violation raises a distinguished DomainError identifying the offending
  argument, the expected constraint and the actual value. The check passes when
  \<open>y >= low\<close> holds and raises otherwise.
\<close>

definition check_greater_or_equal :: "string \<Rightarrow> string \<Rightarrow> arith \<Rightarrow> arith \<Rightarrow> error + unit" where
  "check_greater_or_equal function name y low =
     (if arith_ge y low then Inr () else Inl (DomainError function name y low))"

text \<open>
  \<open>std::acosh\<close> of the C++ standard library, with real arithmetic in place of rounding:
  the inverse hyperbolic cosine on \<open>[1, \<infinity>)\<close>, \<open>+\<infinity>\<close> at \<open>+\<infinity>\<close>, NaN elsewhere.
\<close>

fun std_acosh :: "arith \<Rightarrow> arith" where
  "std_acosh (Fin x) = (if 1 \<le> x then Fin (arcosh x) else NaN)"
| "std_acosh PosInf = PosInf"
| "std_acosh NegInf = NaN"
| "std_acosh NaN = NaN"

text \<open>
  \<open>acosh(const T x)\<close> for arithmetic \<open>T\<close>. The flag \<open>win32\<close> stands for the
  preprocessor symbol \<open>_WIN32\<close>.
\<close>

definition acosh :: "bool \<Rightarrow> arith \<Rightarrow> error + arith" where
  "acosh win32 x =
     (if is_nan x then Inr x
      else (case check_greater_or_equal ''acosh'' ''x'' x (Fin 1) of
              Inl e \<Rightarrow> Inl e
            | Inr _ \<Rightarrow> if win32 \<and> is_inf x then Inr x else Inr (std_acosh x)))"

section \<open>\<open>size_mvt\<close> (prim/fun/size_mvt.hpp, prim/meta/is_stan_scalar.hpp)\<close>

text \<open>
  The three overloads of \<open>size_mvt\<close> are selected by the static type of the argument.
  Types are a datatype; a value carries its type and, for a matrix, its dimensions, for a
  \<open>std::vector\<close>, its elements.
\<close>

datatype cpp_type =
    Arithmetic
  | Complex cpp_type
  | Fvar cpp_type
  | VarValue cpp_type
  | EigenMatrix cpp_type
  | StdVector cpp_type

fun is_arithmetic :: "cpp_type \<Rightarrow> bool" where
  "is_arithmetic Arithmetic = True"
| "is_arithmetic _ = False"

fun is_complex :: "cpp_type \<Rightarrow> bool" where
  "is_complex (Complex _) = True"
| "is_complex _ = False"

fun is_fvar :: "cpp_type \<Rightarrow> bool" where
  "is_fvar (Fvar _) = True"
| "is_fvar _ = False"

fun is_var :: "cpp_type \<Rightarrow> bool" where
  "is_var (VarValue _) = True"
| "is_var _ = False"

fun is_eigen :: "cpp_type \<Rightarrow> bool" where
  "is_eigen (EigenMatrix _) = True"
| "is_eigen _ = False"

fun value_type_t :: "cpp_type \<Rightarrow> cpp_type" where
  "value_type_t (VarValue T) = T"
| "value_type_t (EigenMatrix T) = T"
| "value_type_t (StdVector T) = T"
| "value_type_t T = T"

definition is_stan_scalar :: "cpp_type \<Rightarrow> bool" where
  "is_stan_scalar T \<longleftrightarrow>
     (is_var T \<and> is_arithmetic (value_type_t T)) \<or> is_fvar T \<or> is_arithmetic T \<or> is_complex T"

datatype cpp_value =
    ScalarV cpp_type
  | EigenV cpp_type nat nat
  | StdVectorV cpp_type "cpp_value list"

fun type_of :: "cpp_value \<Rightarrow> cpp_type" where
  "type_of (ScalarV T) = T"
| "type_of (EigenV T r c) = EigenMatrix T"
| "type_of (StdVectorV T xs) = StdVector T"

text \<open>
  \<open>size_mvt\<close>: the first overload (guard \<open>require_stan_scalar_t\<close>) throws, the second
  (guard \<open>require_eigen_t\<close>) returns 1, the third takes a \<open>std::vector\<close> of
  \<open>Eigen::Matrix\<close> and returns its \<open>size()\<close>. A call that matches no overload does not
  compile: the result \<open>None\<close>.
\<close>

fun size_mvt :: "cpp_value \<Rightarrow> (error + nat) option" where
  "size_mvt x =
     (if is_stan_scalar (type_of x)
        then Some (Inl (InvalidArgument ''size_mvt passed to an unrecognized type.''))
      else if is_eigen (type_of x) then Some (Inr 1)
      else (case x of
              StdVectorV (EigenMatrix T) xs \<Rightarrow> Some (Inr (length xs))
            | _ \<Rightarrow> None))"

section \<open>Dense matrices and the size checks (prim/err)\<close>

text \<open>
  An \<open>Eigen::Matrix<T, Dynamic, Dynamic>\<close> with its run-time dimensions; the
  coefficients are stored in column-major order, Eigen's default, so that the coefficient
  \<open>(i, j)\<close> is at position \<open>j * rows + i\<close>.
\<close>

record matrix =
  rows :: nat
  cols :: nat
  coeffs :: "real list"

text \<open>
  The constructor \<open>Matrix(r, c)\<close> allocates \<open>r * c\<close> coefficients and does not
  initialise them. The model fills them with 0: the only constructor call of this file is
  followed by \<open>setZero\<close>, or by a return when there is no coefficient at all.
\<close>

definition Matrix :: "nat \<Rightarrow> nat \<Rightarrow> matrix" where
  "Matrix r c = \<lparr>rows = r, cols = c, coeffs = replicate (r * c) 0\<rparr>"

definition setZero :: "matrix \<Rightarrow> matrix" where
  "setZero x = x\<lparr>coeffs := replicate (rows x * cols x) 0\<rparr>"

definition coeff :: "matrix \<Rightarrow> nat \<Rightarrow> nat \<Rightarrow> real" where
  "coeff x i j = coeffs x ! (j * rows x + i)"

definition coeffRef_set :: "matrix \<Rightarrow> nat \<Rightarrow> nat \<Rightarrow> real \<Rightarrow> matrix" where
  "coeffRef_set x i j v = x\<lparr>coeffs := (coeffs x)[j * rows x + i := v]\<rparr>"

definition square :: "real \<Rightarrow> real" where
  "square x = x * x"

text \<open>
  Modelled from the spec: \<open>check_size_match\<close> (prim/err) is not among the sources at hand.
  Section 7 of the spec: a size mismatch is reported as a distinguished SizeMismatch error
  raised at the point of the call. The check returns normally when the two sizes are equal and
  raises otherwise, with the names and sizes it was given.
\<close>

definition check_size_match :: "string \<Rightarrow> string \<Rightarrow> int \<Rightarrow> string \<Rightarrow> int \<Rightarrow> error + unit" where
  "check_size_match function name_i i name_j j =
     (if i = j then Inr () else Inl (SizeMismatch function name_i i name_j j))"

text \<open>
  Modelled from the spec: \<open>check_nonzero_size\<close> (prim/err) is not among the sources at hand
  and the spec does not describe it. The model follows its name and its arguments: it raises
  when the matrix has no coefficient and returns normally otherwise.
\<close>

definition check_nonzero_size :: "string \<Rightarrow> string \<Rightarrow> matrix \<Rightarrow> error + unit" where
  "check_nonzero_size function name y =
     (if rows y * cols y = 0 then Inl (NonzeroSizeError function name) else Inr ())"

text \<open>
  Modelled from the spec: \<open>check_square\<close> (prim/err) is not among the sources at hand and
  the spec does not describe it. The model follows its name and its arguments: it raises when
  the numbers of rows and columns differ and returns normally otherwise.
\<close>

definition check_square :: "string \<Rightarrow> string \<Rightarrow> matrix \<Rightarrow> error + unit" where
  "check_square function name y =
     (if rows y = cols y then Inr () else Inl (NotSquareError function name (rows y) (cols y)))"

section \<open>\<open>eigenvectors\<close> (prim/fun/eigenvectors.hpp)\<close>

text \<open>
  The two checks come first. What \<open>Eigen::EigenSolver\<close> computes is outside this
  repository: the result is kept symbolic, as the eigenvectors the solver gives for \<open>m\<close>.
\<close>

datatype eigen_result = EigenSolver_eigenvectors matrix

definition eigenvectors :: "matrix \<Rightarrow> error + eigen_result" where
  "eigenvectors m =
     (case check_nonzero_size ''eigenvectors'' ''m'' m of
        Inl e \<Rightarrow> Inl e
      | Inr _ \<Rightarrow>
          (case check_square ''eigenvectors'' ''m'' m of
             Inl e \<Rightarrow> Inl e
           | Inr _ \<Rightarrow> Inr (EigenSolver_eigenvectors m)))"

section \<open>\<open>cholesky_corr_constrain\<close> (prim/fun/cholesky_corr_constrain.hpp)\<close>

text \<open>
  \<open>K\<close> is a C++ \<open>int\<close>, 32 bits wide. The arithmetic on it is written out on the
  integers: \<open>int32\<close> maps an exact result to the value a 32-bit two's complement register
  holds. C++ leaves signed overflow undefined; the model takes the wrapped value, which is
  what the usual compilers produce.
\<close>

definition int32 :: "int \<Rightarrow> int" where
  "int32 n = (n + 2147483648) mod 4294967296 - 2147483648"

text \<open>
  \<open>int k_choose_2 = (K * (K - 1)) / 2\<close>: the difference and the product are \<open>int\<close>
  operations, the division truncates towards zero (\<open>sdiv\<close>).
\<close>

definition k_choose_2 :: "int \<Rightarrow> int" where
  "k_choose_2 K = int32 (K * int32 (K - 1)) sdiv 2"

text \<open>
  The inner loop \<open>for (int j = 1; j < i; ++j)\<close> of the overload without \<open>lp\<close>. Its
  state is the matrix \<open>x\<close>, the read position \<open>k\<close> in \<open>z\<close> and \<open>sum_sqs\<close>.
  \<open>z.coeff(k)\<close> is not range-checked in the source: a read at or past the size of \<open>z\<close>
  is undefined in C++, and the loop stops there with \<open>None\<close>.
\<close>

function inner_loop ::
  "real list \<Rightarrow> nat \<Rightarrow> nat \<Rightarrow> matrix \<times> nat \<times> real \<Rightarrow> (matrix \<times> nat \<times> real) option" where
  "inner_loop z i j (x, k, sum_sqs) =
     (if j < i then
        (if k < length z then
           (let x' = coeffRef_set x i j (z ! k * sqrt (1 - sum_sqs));
                sum_sqs' = sum_sqs + square (coeff x' i j)
            in inner_loop z i (j + 1) (x', k + 1, sum_sqs'))
         else None)
      else Some (x, k, sum_sqs))"
  by pat_completeness auto
termination
  by (relation "measure (\<lambda>(z, i, j, st). i - j)") auto

declare inner_loop.simps [simp del]

text \<open>The outer loop \<open>for (int i = 1; i < K; ++i)\<close>, on the state \<open>(x, k)\<close>.\<close>

function outer_loop ::
  "real list \<Rightarrow> nat \<Rightarrow> nat \<Rightarrow> matrix \<times> nat \<Rightarrow> (matrix \<times> nat) option" where
  "outer_loop z K i (x, k) =
     (if i < K then
        (if k < length z then
           (let x1 = coeffRef_set x i 0 (z ! k);
                sum_sqs = square (coeff x1 i 0)
            in (case inner_loop z i 1 (x1, k + 1, sum_sqs) of
                  None \<Rightarrow> None
                | Some (x2, k2, sum_sqs2) \<Rightarrow>
                    outer_loop z K (i + 1) (coeffRef_set x2 i i (sqrt (1 - sum_sqs2)), k2)))
         else None)
      else Some (x, k))"
  by pat_completeness auto
termination
  by (relation "measure (\<lambda>(z, K, i, st). K - i)") auto

declare outer_loop.simps [simp del]

text \<open>
  \<open>cholesky_corr_constrain(y, K)\<close>. \<open>corr_constrain\<close> (prim/fun/corr_constrain.hpp) is
  not among the sources at hand and is a parameter. For a negative \<open>K\<close> that passes the size
  check the source constructs a matrix of negative dimensions, which Eigen leaves undefined;
  the model returns \<open>NegativeDimension\<close> there. An undefined read in the loops gives
  \<open>UndefinedRead\<close>. Exhausted memory is not modelled.
\<close>

definition cholesky_corr_constrain :: "(real list \<Rightarrow> real list) \<Rightarrow> real list \<Rightarrow> int \<Rightarrow> error + matrix" where
  "cholesky_corr_constrain corr_constrain y K =
     (case check_size_match ''cholesky_corr_constrain'' ''y.size()'' (int (length y))
             ''k_choose_2'' (k_choose_2 K) of
        Inl e \<Rightarrow> Inl e
      | Inr _ \<Rightarrow>
          (let z = corr_constrain y in
           if K < 0 then Inl (NegativeDimension K)
           else
             (let x = Matrix (nat K) (nat K) in
              if K = 0 then Inr x
              else
                (case outer_loop z (nat K) 1 (coeffRef_set (setZero x) 0 0 1, 0) of
                   None \<Rightarrow> Inl UndefinedRead
                 | Some (x', k') \<Rightarrow> Inr x'))))"

text \<open>
  The duplicated loops of the overload with \<open>lp\<close>: the state carries \<open>lp\<close> as well,
  and the inner loop adds \<open>0.5 * log1m(sum_sqs)\<close> to it before each coefficient is
  written. \<open>log1m\<close> (prim/fun/log1m.hpp) is not among the sources at hand and is a
  parameter.
\<close>

function inner_loop_lp ::
  "(real \<Rightarrow> real) \<Rightarrow> real list \<Rightarrow> nat \<Rightarrow> nat \<Rightarrow> matrix \<times> nat \<times> real \<times> real
     \<Rightarrow> (matrix \<times> nat \<times> real \<times> real) option" where
  "inner_loop_lp log1m z i j (x, k, sum_sqs, lp) =
     (if j < i then
        (if k < length z then
           (let lp' = lp + 0.5 * log1m sum_sqs;
                x' = coeffRef_set x i j (z ! k * sqrt (1 - sum_sqs));
                sum_sqs' = sum_sqs + square (coeff x' i j)
            in inner_loop_lp log1m z i (j + 1) (x', k + 1, sum_sqs', lp'))
         else None)
      else Some (x, k, sum_sqs, lp))"
  by pat_completeness auto
termination
  by (relation "measure (\<lambda>(l, z, i, j, st). i - j)") auto

declare inner_loop_lp.simps [simp del]

function outer_loop_lp ::
  "(real \<Rightarrow> real) \<Rightarrow> real list \<Rightarrow> nat \<Rightarrow> nat \<Rightarrow> matrix \<times> nat \<times> real
     \<Rightarrow> (matrix \<times> nat \<times> real) option" where
  "outer_loop_lp log1m z K i (x, k, lp) =
     (if i < K then
        (if k < length z then
           (let x1 = coeffRef_set x i 0 (z ! k);
                sum_sqs = square (coeff x1 i 0)
            in (case inner_loop_lp log1m z i 1 (x1, k + 1, sum_sqs, lp) of
                  None \<Rightarrow> None
                | Some (x2, k2, sum_sqs2, lp2) \<Rightarrow>
                    outer_loop_lp log1m z K (i + 1)
                      (coeffRef_set x2 i i (sqrt (1 - sum_sqs2)), k2, lp2)))
         else None)
      else Some (x, k, lp))"
  by pat_completeness auto
termination
  by (relation "measure (\<lambda>(l, z, K, i, st). K - i)") auto

declare outer_loop_lp.simps [simp del]

text \<open>
  \<open>cholesky_corr_constrain(y, K, lp)\<close>. The reference \<open>lp\<close> is state: the function
  takes its value at the call and returns, beside the result or the exception, its value
  when the call ends. \<open>corr_constrain(y, lp)\<close> is a parameter that returns \<open>z\<close> and
  the updated \<open>lp\<close>. After an undefined read the value of \<open>lp\<close> is the one
  \<open>corr_constrain\<close> left.
\<close>

definition cholesky_corr_constrain_lp ::
  "(real list \<Rightarrow> real \<Rightarrow> real list \<times> real) \<Rightarrow> (real \<Rightarrow> real) \<Rightarrow> real list \<Rightarrow> int \<Rightarrow> real
     \<Rightarrow> (error + matrix) \<times> real" where
  "cholesky_corr_constrain_lp corr_constrain_lp log1m y K lp =
     (case check_size_match ''cholesky_corr_constrain'' ''y.size()'' (int (length y))
             ''k_choose_2'' (k_choose_2 K) of
        Inl e \<Rightarrow> (Inl e, lp)
      | Inr _ \<Rightarrow>
          (let (z, lp1) = corr_constrain_lp y lp in
           if K < 0 then (Inl (NegativeDimension K), lp1)
           else
             (let x = Matrix (nat K) (nat K) in
              if K = 0 then (Inr x, lp1)
              else
                (case outer_loop_lp log1m z (nat K) 1 (coeffRef_set (setZero x) 0 0 1, 0, lp1) of
                   None \<Rightarrow> (Inl UndefinedRead, lp1)
                 | Some (x', k', lp') \<Rightarrow> (Inr x', lp')))))"

text \<open>
  The overload with the template parameter \<open>Jacobian\<close> chooses between the two.
\<close>

definition cholesky_corr_constrain_jacobian ::
  "bool \<Rightarrow> (real list \<Rightarrow> real list) \<Rightarrow> (real list \<Rightarrow> real \<Rightarrow> real list \<times> real) \<Rightarrow> (real \<Rightarrow> real)
     \<Rightarrow> real list \<Rightarrow> int \<Rightarrow> real \<Rightarrow> (error + matrix) \<times> real" where
  "cholesky_corr_constrain_jacobian Jacobian corr_constrain corr_constrain_lp log1m y K lp =
     (if Jacobian then cholesky_corr_constrain_lp corr_constrain_lp log1m y K lp
      else (cholesky_corr_constrain corr_constrain y K, lp))"

section \<open>Double arithmetic\<close>

text \<open>
  A \<open>double\<close> is a value of \<open>arith\<close>: NaN, an infinity or a finite number. The
  operations follow IEEE 754 on NaN and the infinities, on division by zero and on results
  that leave the range of the format: an exact result of magnitude \<open>2^1024 - 2^970\<close> or
  more (half a unit in the last place above the largest finite number) is an infinity, one of
  magnitude \<open>2^-1075\<close> or less (half the smallest subnormal number) is zero. Inside the
  range the exact result is kept: the rounding to 53 bits is not modelled, nor is the sign of
  zero (a zero divisor is taken to be \<open>+0\<close>).
\<close>

definition double_of_real :: "real \<Rightarrow> arith" where
  "double_of_real r =
     (if 2 ^ 1024 - 2 ^ 970 \<le> r then PosInf
      else if r \<le> - (2 ^ 1024 - 2 ^ 970) then NegInf
      else if \<bar>r\<bar> * 2 ^ 1075 \<le> 1 then Fin 0
      else Fin r)"

fun dneg :: "arith \<Rightarrow> arith" where
  "dneg NaN = NaN"
| "dneg NegInf = PosInf"
| "dneg PosInf = NegInf"
| "dneg (Fin a) = Fin (- a)"

fun dadd :: "arith \<Rightarrow> arith \<Rightarrow> arith" where
  "dadd NaN b = NaN"
| "dadd a NaN = NaN"
| "dadd (Fin a) (Fin b) = double_of_real (a + b)"
| "dadd (Fin a) PosInf = PosInf"
| "dadd (Fin a) NegInf = NegInf"
| "dadd PosInf (Fin b) = PosInf"
| "dadd NegInf (Fin b) = NegInf"
| "dadd PosInf PosInf = PosInf"
| "dadd NegInf NegInf = NegInf"
| "dadd PosInf NegInf = NaN"
| "dadd NegInf PosInf = NaN"

definition dsub :: "arith \<Rightarrow> arith \<Rightarrow> arith" where
  "dsub a b = dadd a (dneg b)"

fun dmul :: "arith \<Rightarrow> arith \<Rightarrow> arith" where
  "dmul NaN b = NaN"
| "dmul a NaN = NaN"
| "dmul (Fin a) (Fin b) = double_of_real (a * b)"
| "dmul (Fin a) PosInf = (if a = 0 then NaN else if 0 < a then PosInf else NegInf)"
| "dmul (Fin a) NegInf = (if a = 0 then NaN else if 0 < a then NegInf else PosInf)"
| "dmul PosInf (Fin b) = (if b = 0 then NaN else if 0 < b then PosInf else NegInf)"
| "dmul NegInf (Fin b) = (if b = 0 then NaN else if 0 < b then NegInf else PosInf)"
| "dmul PosInf PosInf = PosInf"
| "dmul NegInf NegInf = PosInf"
| "dmul PosInf NegInf = NegInf"
| "dmul NegInf PosInf = NegInf"

fun ddiv :: "arith \<Rightarrow> arith \<Rightarrow> arith" where
  "ddiv NaN b = NaN"
| "ddiv a NaN = NaN"
| "ddiv (Fin a) (Fin b) =
     (if b = 0 then (if a = 0 then NaN else if 0 < a then PosInf else NegInf)
      else double_of_real (a / b))"
| "ddiv (Fin a) PosInf = Fin 0"
| "ddiv (Fin a) NegInf = Fin 0"
| "ddiv PosInf (Fin b) = (if b < 0 then NegInf else PosInf)"
| "ddiv NegInf (Fin b) = (if b < 0 then PosInf else NegInf)"
| "ddiv PosInf PosInf = NaN"
| "ddiv NegInf NegInf = NaN"
| "ddiv PosInf NegInf = NaN"
| "ddiv NegInf PosInf = NaN"

text \<open>\<open>std::exp\<close> on a \<open>double\<close>: it overflows to \<open>+\<infinity>\<close> and underflows to 0.\<close>

fun dexp :: "arith \<Rightarrow> arith" where
  "dexp NaN = NaN"
| "dexp PosInf = PosInf"
| "dexp NegInf = Fin 0"
| "dexp (Fin a) = double_of_real (exp a)"

section \<open>Plain arithmetic arguments\<close>

text \<open>
  \<open>require_all_arithmetic_t\<close> admits every arithmetic type of C++. Three of them are
  modelled: \<open>double\<close>, \<open>int\<close> and \<open>unsigned\<close>, the integers 32 bits wide. An operator
  on two integers is the integer operator, which wraps; \<open>int\<close> meets \<open>unsigned\<close> as
  \<open>unsigned\<close>; as soon as one operand is a \<open>double\<close> the other is converted to
  \<open>double\<close> (the usual arithmetic conversions). C++ leaves the overflow of \<open>int\<close>
  undefined; the model takes the wrapped value.
\<close>

datatype plain = PDouble arith | PInt "32 word" | PUnsigned "32 word"

fun to_double :: "plain \<Rightarrow> arith" where
  "to_double (PDouble a) = a"
| "to_double (PInt a) = Fin (real_of_int (sint a))"
| "to_double (PUnsigned a) = Fin (real (unat a))"

fun plain_minus :: "plain \<Rightarrow> plain \<Rightarrow> plain" where
  "plain_minus (PInt a) (PInt b) = PInt (a - b)"
| "plain_minus (PInt a) (PUnsigned b) = PUnsigned (a - b)"
| "plain_minus (PUnsigned a) (PInt b) = PUnsigned (a - b)"
| "plain_minus (PUnsigned a) (PUnsigned b) = PUnsigned (a - b)"
| "plain_minus a b = PDouble (dsub (to_double a) (to_double b))"

fun plain_plus :: "plain \<Rightarrow> plain \<Rightarrow> plain" where
  "plain_plus (PInt a) (PInt b) = PInt (a + b)"
| "plain_plus (PInt a) (PUnsigned b) = PUnsigned (a + b)"
| "plain_plus (PUnsigned a) (PInt b) = PUnsigned (a + b)"
| "plain_plus (PUnsigned a) (PUnsigned b) = PUnsigned (a + b)"
| "plain_plus a b = PDouble (dadd (to_double a) (to_double b))"

fun plain_times :: "plain \<Rightarrow> plain \<Rightarrow> plain" where
  "plain_times (PInt a) (PInt b) = PInt (a * b)"
| "plain_times (PInt a) (PUnsigned b) = PUnsigned (a * b)"
| "plain_times (PUnsigned a) (PInt b) = PUnsigned (a * b)"
| "plain_times (PUnsigned a) (PUnsigned b) = PUnsigned (a * b)"
| "plain_times a b = PDouble (dmul (to_double a) (to_double b))"

text \<open>
  Integer division truncates towards zero; a zero divisor is undefined in C++ and gives 0 here.
  In log_mix.hpp the dividend of every division is the \<open>double\<close> literal \<open>1.0\<close>.
\<close>

fun plain_divide :: "plain \<Rightarrow> plain \<Rightarrow> plain" where
  "plain_divide (PInt a) (PInt b) = PInt (word_of_int (sint a sdiv sint b))"
| "plain_divide (PInt a) (PUnsigned b) = PUnsigned (a div b)"
| "plain_divide (PUnsigned a) (PInt b) = PUnsigned (a div b)"
| "plain_divide (PUnsigned a) (PUnsigned b) = PUnsigned (a div b)"
| "plain_divide a b = PDouble (ddiv (to_double a) (to_double b))"

text \<open>\<open>a > b\<close>: signed on two \<open>int\<close>, unsigned when one is \<open>unsigned\<close>, else on \<open>double\<close>.\<close>

fun plain_gt :: "plain \<Rightarrow> plain \<Rightarrow> bool" where
  "plain_gt (PInt a) (PInt b) = (sint b < sint a)"
| "plain_gt (PInt a) (PUnsigned b) = (unat b < unat a)"
| "plain_gt (PUnsigned a) (PInt b) = (unat b < unat a)"
| "plain_gt (PUnsigned a) (PUnsigned b) = (unat b < unat a)"
| "plain_gt a b = arith_lt (to_double b) (to_double a)"

section \<open>Forward-mode scalars\<close>

text \<open>
  Modelled from the spec: \<open>fvar\<close> (fwd/core) is not among the sources at hand. Section 3 of
  the spec: a forward AD scalar is an immutable pair \<open>(value: double, derivative: double)\<close>.
  The fields are \<open>val_\<close> and \<open>d_\<close> in the source.
\<close>

record fvar =
  val_f :: arith
  d_f :: arith

text \<open>
  Modelled from the spec: the operators of \<open>fvar\<close> (fwd/core) and its \<open>exp\<close>
  (fwd/fun/exp.hpp) are not among the sources at hand. Section 3 of the spec: an operation
  gives a new pair, the value computed alongside its derivative; the derivatives are those of
  the sum, difference, product, quotient and exponential, in \<open>double\<close> arithmetic. Of the
  pairs the helper computes, \<open>log_mix\<close> reads the values only
  (\<open>value_of(partial_deriv_array[i])\<close>).
\<close>

definition fvar_minus :: "fvar \<Rightarrow> fvar \<Rightarrow> fvar" where
  "fvar_minus a b = \<lparr>val_f = dsub (val_f a) (val_f b), d_f = dsub (d_f a) (d_f b)\<rparr>"

definition fvar_plus :: "fvar \<Rightarrow> fvar \<Rightarrow> fvar" where
  "fvar_plus a b = \<lparr>val_f = dadd (val_f a) (val_f b), d_f = dadd (d_f a) (d_f b)\<rparr>"

definition fvar_times :: "fvar \<Rightarrow> fvar \<Rightarrow> fvar" where
  "fvar_times a b =
     \<lparr>val_f = dmul (val_f a) (val_f b),
      d_f = dadd (dmul (d_f a) (val_f b)) (dmul (val_f a) (d_f b))\<rparr>"

definition fvar_divide :: "fvar \<Rightarrow> fvar \<Rightarrow> fvar" where
  "fvar_divide a b =
     \<lparr>val_f = ddiv (val_f a) (val_f b),
      d_f = ddiv (dsub (dmul (d_f a) (val_f b)) (dmul (val_f a) (d_f b)))
                 (dmul (val_f b) (val_f b))\<rparr>"

definition fvar_exp :: "fvar \<Rightarrow> fvar" where
  "fvar_exp a = \<lparr>val_f = dexp (val_f a), d_f = dmul (d_f a) (dexp (val_f a))\<rparr>"

text \<open>
  An argument of the templates of log_mix.hpp is a plain arithmetic value or an \<open>fvar\<close>.
  A binary operator on two plain values is the plain operator; as soon as one operand is an
  \<open>fvar\<close> the other is converted to \<open>double\<close> and promoted (derivative 0), and the
  result is an \<open>fvar\<close>.
\<close>

datatype scal = Plain plain | FV fvar

datatype kind = K_double | K_int | K_unsigned | K_fvar

fun kind_of :: "scal \<Rightarrow> kind" where
  "kind_of (Plain (PDouble a)) = K_double"
| "kind_of (Plain (PInt a)) = K_int"
| "kind_of (Plain (PUnsigned a)) = K_unsigned"
| "kind_of (FV f) = K_fvar"

text \<open>\<open>value_of\<close>: the \<open>val_\<close> of an \<open>fvar\<close>, a plain value as it is.\<close>

fun value_of :: "scal \<Rightarrow> arith" where
  "value_of (Plain a) = to_double a"
| "value_of (FV f) = val_f f"

fun to_fvar :: "scal \<Rightarrow> fvar" where
  "to_fvar (Plain a) = \<lparr>val_f = to_double a, d_f = Fin 0\<rparr>"
| "to_fvar (FV f) = f"

fun promoted :: "(plain \<Rightarrow> plain \<Rightarrow> plain) \<Rightarrow> (fvar \<Rightarrow> fvar \<Rightarrow> fvar) \<Rightarrow> scal \<Rightarrow> scal \<Rightarrow> scal" where
  "promoted f g (Plain x) (Plain y) = Plain (f x y)"
| "promoted f g a b = FV (g (to_fvar a) (to_fvar b))"

definition minus_s :: "scal \<Rightarrow> scal \<Rightarrow> scal" where
  "minus_s = promoted plain_minus fvar_minus"

definition plus_s :: "scal \<Rightarrow> scal \<Rightarrow> scal" where
  "plus_s = promoted plain_plus fvar_plus"

definition times_s :: "scal \<Rightarrow> scal \<Rightarrow> scal" where
  "times_s = promoted plain_times fvar_times"

definition divide_s :: "scal \<Rightarrow> scal \<Rightarrow> scal" where
  "divide_s = promoted plain_divide fvar_divide"

text \<open>
  \<open>exp\<close>. A plain argument goes to \<open>std::exp\<close> as a \<open>double\<close>, an \<open>fvar\<close> to the
  \<open>exp\<close> of \<open>fvar\<close>, which calls \<open>std::exp\<close> on its value. The call returns, beside
  its result, the \<open>double\<close> that \<open>std::exp\<close> received: the record of the call.
\<close>

fun exp_s :: "scal \<Rightarrow> arith list \<times> scal" where
  "exp_s (Plain a) = ([to_double a], Plain (PDouble (dexp (to_double a))))"
| "exp_s (FV f) = ([val_f f], FV (fvar_exp f))"

section \<open>\<open>log_mix\<close> (fwd/fun/log_mix.hpp)\<close>

text \<open>
  \<open>promote_args_t<T_theta, T_lambda1, T_lambda2>\<close> is \<open>fvar\<close> when one of the three
  types is, and \<open>double\<close> otherwise; \<open>std::is_same<T, partial_return_type>\<close> compares
  the type of an argument with it. A value stored into the array is converted to the type
  of its elements.
\<close>

definition promote_args_t :: "scal \<Rightarrow> scal \<Rightarrow> scal \<Rightarrow> kind" where
  "promote_args_t theta lambda1 lambda2 =
     (if kind_of theta = K_fvar \<or> kind_of lambda1 = K_fvar \<or> kind_of lambda2 = K_fvar
      then K_fvar else K_double)"

definition is_same :: "scal \<Rightarrow> kind \<Rightarrow> bool" where
  "is_same a partial_return_type \<longleftrightarrow> kind_of a = partial_return_type"

definition convert_to :: "kind \<Rightarrow> scal \<Rightarrow> scal" where
  "convert_to partial_return_type v =
     (if partial_return_type = K_fvar then FV (to_fvar v) else Plain (PDouble (value_of v)))"

text \<open>
  \<open>log_mix_partial_helper\<close>. The array of the caller is passed in and returned updated; a
  slot is written for each argument whose type is the promoted type, at the running
  \<open>offset\<close>. Beside the array the model returns the record of the calls of \<open>exp\<close>: the
  helper calls it once, on \<open>lambda2 - lambda1\<close>, computed in the type of the operands.
\<close>

definition log_mix_partial_helper :: "scal \<Rightarrow> scal \<Rightarrow> scal \<Rightarrow> scal list \<Rightarrow> arith list \<times> scal list" where
  "log_mix_partial_helper theta lambda1 lambda2 partials_array =
     (let partial_return_type = promote_args_t theta lambda1 lambda2;
          lam2_m_lam1 = minus_s lambda2 lambda1;
          (exp_calls, exp_lam2_m_lam1) = exp_s lam2_m_lam1;
          one_m_exp_lam2_m_lam1 = minus_s (Plain (PDouble (Fin 1))) exp_lam2_m_lam1;
          one_m_t = minus_s (Plain (PDouble (Fin 1))) theta;
          one_m_t_prod_exp_lam2_m_lam1 = times_s one_m_t exp_lam2_m_lam1;
          t_plus_one_m_t_prod_exp_lam2_m_lam1 = plus_s theta one_m_t_prod_exp_lam2_m_lam1;
          one_d_t_plus_one_m_t_prod_exp_lam2_m_lam1
            = divide_s (Plain (PDouble (Fin 1))) t_plus_one_m_t_prod_exp_lam2_m_lam1;
          offset = (0::nat);
          (partials_array, offset) =
            (if is_same theta partial_return_type
             then (partials_array[offset := convert_to partial_return_type
                     (times_s one_m_exp_lam2_m_lam1 one_d_t_plus_one_m_t_prod_exp_lam2_m_lam1)],
                   offset + 1)
             else (partials_array, offset));
          (partials_array, offset) =
            (if is_same lambda1 partial_return_type
             then (partials_array[offset := convert_to partial_return_type
                     (times_s theta one_d_t_plus_one_m_t_prod_exp_lam2_m_lam1)],
                   offset + 1)
             else (partials_array, offset));
          partials_array =
            (if is_same lambda2 partial_return_type
             then partials_array[offset := convert_to partial_return_type
                     (times_s one_m_t_prod_exp_lam2_m_lam1
                        one_d_t_plus_one_m_t_prod_exp_lam2_m_lam1)]
             else partials_array)
      in (exp_calls, partials_array))"

text \<open>
  A default-constructed \<open>fvar\<close> has value 0 and derivative 0: the contents of a fresh
  \<open>fvar<T> partial_deriv_array[N]\<close>.
\<close>

definition partial_deriv_array :: "nat \<Rightarrow> scal list" where
  "partial_deriv_array N = replicate N (FV \<lparr>val_f = Fin 0, d_f = Fin 0\<rparr>)"

text \<open>
  The seven overloads with at least one \<open>fvar\<close> argument, in the order of the source. The
  suffix gives the kinds of \<open>theta\<close>, \<open>lambda1\<close>, \<open>lambda2\<close>: \<open>f\<close> for \<open>fvar\<close>,
  \<open>p\<close> for plain. The overload of \<open>log_mix\<close> on three plain values
  (prim/fun/log_mix.hpp), which gives the value of the result, is not among the sources at
  hand: it is the parameter \<open>log_mix_prim\<close>. Each overload returns the record of the calls
  of \<open>exp\<close> made by the helper, and the resulting \<open>fvar\<close>.
\<close>

definition log_mix_fff ::
  "(plain \<Rightarrow> plain \<Rightarrow> plain \<Rightarrow> arith) \<Rightarrow> fvar \<Rightarrow> fvar \<Rightarrow> fvar \<Rightarrow> arith list \<times> fvar" where
  "log_mix_fff log_mix_prim theta lambda1 lambda2 =
     (if arith_lt (val_f lambda2) (val_f lambda1) then
        (let (exp_calls, pd) = log_mix_partial_helper (FV theta) (FV lambda1) (FV lambda2)
                                 (partial_deriv_array 3)
         in (exp_calls,
             \<lparr>val_f = log_mix_prim (PDouble (val_f theta)) (PDouble (val_f lambda1)) (PDouble (val_f lambda2)),
              d_f = dadd (dadd (dmul (d_f theta) (value_of (pd ! 0)))
                         (dmul (d_f lambda1) (value_of (pd ! 1))))
                         (dmul (d_f lambda2) (value_of (pd ! 2)))\<rparr>))
      else
        (let (exp_calls, pd) = log_mix_partial_helper (minus_s (Plain (PDouble (Fin 1))) (FV theta))
                                 (FV lambda2) (FV lambda1) (partial_deriv_array 3)
         in (exp_calls,
             \<lparr>val_f = log_mix_prim (PDouble (val_f theta)) (PDouble (val_f lambda1)) (PDouble (val_f lambda2)),
              d_f = dadd (dadd (dmul (dneg (d_f theta)) (value_of (pd ! 0)))
                         (dmul (d_f lambda1) (value_of (pd ! 2))))
                         (dmul (d_f lambda2) (value_of (pd ! 1)))\<rparr>)))"

definition log_mix_ffp ::
  "(plain \<Rightarrow> plain \<Rightarrow> plain \<Rightarrow> arith) \<Rightarrow> fvar \<Rightarrow> fvar \<Rightarrow> plain \<Rightarrow> arith list \<times> fvar" where
  "log_mix_ffp log_mix_prim theta lambda1 lambda2 =
     (if plain_gt (PDouble (val_f lambda1)) lambda2 then
        (let (exp_calls, pd) = log_mix_partial_helper (FV theta) (FV lambda1) (Plain lambda2)
                                 (partial_deriv_array 2)
         in (exp_calls,
             \<lparr>val_f = log_mix_prim (PDouble (val_f theta)) (PDouble (val_f lambda1)) lambda2,
              d_f = dadd (dmul (d_f theta) (value_of (pd ! 0)))
                         (dmul (d_f lambda1) (value_of (pd ! 1)))\<rparr>))
      else
        (let (exp_calls, pd) = log_mix_partial_helper (minus_s (Plain (PDouble (Fin 1))) (FV theta))
                                 (Plain lambda2) (FV lambda1) (partial_deriv_array 2)
         in (exp_calls,
             \<lparr>val_f = log_mix_prim (PDouble (val_f theta)) (PDouble (val_f lambda1)) lambda2,
              d_f = dadd (dmul (dneg (d_f theta)) (value_of (pd ! 0)))
                         (dmul (d_f lambda1) (value_of (pd ! 1)))\<rparr>)))"

definition log_mix_fpf ::
  "(plain \<Rightarrow> plain \<Rightarrow> plain \<Rightarrow> arith) \<Rightarrow> fvar \<Rightarrow> plain \<Rightarrow> fvar \<Rightarrow> arith list \<times> fvar" where
  "log_mix_fpf log_mix_prim theta lambda1 lambda2 =
     (if plain_gt lambda1 (PDouble (val_f lambda2)) then
        (let (exp_calls, pd) = log_mix_partial_helper (FV theta) (Plain lambda1) (FV lambda2)
                                 (partial_deriv_array 2)
         in (exp_calls,
             \<lparr>val_f = log_mix_prim (PDouble (val_f theta)) lambda1 (PDouble (val_f lambda2)),
              d_f = dadd (dmul (d_f theta) (value_of (pd ! 0)))
                         (dmul (d_f lambda2) (value_of (pd ! 1)))\<rparr>))
      else
        (let (exp_calls, pd) = log_mix_partial_helper (minus_s (Plain (PDouble (Fin 1))) (FV theta))
                                 (FV lambda2) (Plain lambda1) (partial_deriv_array 2)
         in (exp_calls,
             \<lparr>val_f = log_mix_prim (PDouble (val_f theta)) lambda1 (PDouble (val_f lambda2)),
              d_f = dadd (dmul (dneg (d_f theta)) (value_of (pd ! 0)))
                         (dmul (d_f lambda2) (value_of (pd ! 1)))\<rparr>)))"

definition log_mix_pff ::
  "(plain \<Rightarrow> plain \<Rightarrow> plain \<Rightarrow> arith) \<Rightarrow> plain \<Rightarrow> fvar \<Rightarrow> fvar \<Rightarrow> arith list \<times> fvar" where
  "log_mix_pff log_mix_prim theta lambda1 lambda2 =
     (if arith_lt (val_f lambda2) (val_f lambda1) then
        (let (exp_calls, pd) = log_mix_partial_helper (Plain theta) (FV lambda1) (FV lambda2)
                                 (partial_deriv_array 2)
         in (exp_calls,
             \<lparr>val_f = log_mix_prim theta (PDouble (val_f lambda1)) (PDouble (val_f lambda2)),
              d_f = dadd (dmul (d_f lambda1) (value_of (pd ! 0)))
                         (dmul (d_f lambda2) (value_of (pd ! 1)))\<rparr>))
      else
        (let (exp_calls, pd) = log_mix_partial_helper (minus_s (Plain (PDouble (Fin 1))) (Plain theta))
                                 (FV lambda2) (FV lambda1) (partial_deriv_array 2)
         in (exp_calls,
             \<lparr>val_f = log_mix_prim theta (PDouble (val_f lambda1)) (PDouble (val_f lambda2)),
              d_f = dadd (dmul (d_f lambda1) (value_of (pd ! 1)))
                         (dmul (d_f lambda2) (value_of (pd ! 0)))\<rparr>)))"

definition log_mix_fpp ::
  "(plain \<Rightarrow> plain \<Rightarrow> plain \<Rightarrow> arith) \<Rightarrow> fvar \<Rightarrow> plain \<Rightarrow> plain \<Rightarrow> arith list \<times> fvar" where
  "log_mix_fpp log_mix_prim theta lambda1 lambda2 =
     (if plain_gt lambda1 lambda2 then
        (let (exp_calls, pd) = log_mix_partial_helper (FV theta) (Plain lambda1) (Plain lambda2)
                                 (partial_deriv_array 1)
         in (exp_calls,
             \<lparr>val_f = log_mix_prim (PDouble (val_f theta)) lambda1 lambda2,
              d_f = dmul (d_f theta) (value_of (pd ! 0))\<rparr>))
      else
        (let (exp_calls, pd) = log_mix_partial_helper (minus_s (Plain (PDouble (Fin 1))) (FV theta))
                                 (Plain lambda2) (Plain lambda1) (partial_deriv_array 1)
         in (exp_calls,
             \<lparr>val_f = log_mix_prim (PDouble (val_f theta)) lambda1 lambda2,
              d_f = dmul (dneg (d_f theta)) (value_of (pd ! 0))\<rparr>)))"

definition log_mix_pfp ::
  "(plain \<Rightarrow> plain \<Rightarrow> plain \<Rightarrow> arith) \<Rightarrow> plain \<Rightarrow> fvar \<Rightarrow> plain \<Rightarrow> arith list \<times> fvar" where
  "log_mix_pfp log_mix_prim theta lambda1 lambda2 =
     (if plain_gt (PDouble (val_f lambda1)) lambda2 then
        (let (exp_calls, pd) = log_mix_partial_helper (Plain theta) (FV lambda1) (Plain lambda2)
                                 (partial_deriv_array 1)
         in (exp_calls,
             \<lparr>val_f = log_mix_prim theta (PDouble (val_f lambda1)) lambda2,
              d_f = dmul (d_f lambda1) (value_of (pd ! 0))\<rparr>))
      else
        (let (exp_calls, pd) = log_mix_partial_helper (minus_s (Plain (PDouble (Fin 1))) (Plain theta))
                                 (Plain lambda2) (FV lambda1) (partial_deriv_array 1)
         in (exp_calls,
             \<lparr>val_f = log_mix_prim theta (PDouble (val_f lambda1)) lambda2,
              d_f = dmul (d_f lambda1) (value_of (pd ! 0))\<rparr>)))"

definition log_mix_ppf ::
  "(plain \<Rightarrow> plain \<Rightarrow> plain \<Rightarrow> arith) \<Rightarrow> plain \<Rightarrow> plain \<Rightarrow> fvar \<Rightarrow> arith list \<times> fvar" where
  "log_mix_ppf log_mix_prim theta lambda1 lambda2 =
     (if plain_gt lambda1 (PDouble (val_f lambda2)) then
        (let (exp_calls, pd) = log_mix_partial_helper (Plain theta) (Plain lambda1) (FV lambda2)
                                 (partial_deriv_array 1)
         in (exp_calls,
             \<lparr>val_f = log_mix_prim theta lambda1 (PDouble (val_f lambda2)),
              d_f = dmul (d_f lambda2) (value_of (pd ! 0))\<rparr>))
      else
        (let (exp_calls, pd) = log_mix_partial_helper (minus_s (Plain (PDouble (Fin 1))) (Plain theta))
                                 (FV lambda2) (Plain lambda1) (partial_deriv_array 1)
         in (exp_calls,
             \<lparr>val_f = log_mix_prim theta lambda1 (PDouble (val_f lambda2)),
              d_f = dmul (d_f lambda2) (value_of (pd ! 0))\<rparr>)))"

text \<open>
  The partial derivatives as the spec and the comment above \<open>log_mix\<close> write them
  (section 4.3), over the common denominator
  \<open>theta * exp(lambda1) + (1 - theta) * exp(lambda2)\<close>, on the reals.
\<close>

definition spec_denominator :: "real \<Rightarrow> real \<Rightarrow> real \<Rightarrow> real" where
  "spec_denominator theta lambda1 lambda2 = theta * exp lambda1 + (1 - theta) * exp lambda2"

definition spec_d_theta :: "real \<Rightarrow> real \<Rightarrow> real \<Rightarrow> real" where
  "spec_d_theta theta lambda1 lambda2
     = (exp lambda1 - exp lambda2) / spec_denominator theta lambda1 lambda2"

definition spec_d_lambda1 :: "real \<Rightarrow> real \<Rightarrow> real \<Rightarrow> real" where
  "spec_d_lambda1 theta lambda1 lambda2
     = theta * exp lambda1 / spec_denominator theta lambda1 lambda2"

definition spec_d_lambda2 :: "real \<Rightarrow> real \<Rightarrow> real \<Rightarrow> real" where
  "spec_d_lambda2 theta lambda1 lambda2
     = (1 - theta) * exp lambda2 / spec_denominator theta lambda1 lambda2"

section \<open>Lemmas on \<open>cholesky_corr_constrain\<close>\<close>

text \<open>
  As long as the product fits into an \<open>int\<close>, that is for \<open>K\<close> from 0 to 46341,
  \<open>k_choose_2\<close> is the exact \<open>K * (K - 1) / 2\<close>.
\<close>

lemma int32_id: "- 2147483648 \<le> n \<Longrightarrow> n < 2147483648 \<Longrightarrow> int32 n = n"
  by (simp add: int32_def)

lemma k_choose_2_exact:
  assumes "0 \<le> K" and "K \<le> 46341"
  shows "k_choose_2 K = (K * (K - 1)) div 2"
proof (cases "K = 0")
  case True
  then show ?thesis
    by (simp add: k_choose_2_def int32_def signed_divide_int_def)
next
  case False
  with assms have K1: "0 \<le> K - 1" "K - 1 \<le> 46340"
    by simp_all
  from assms K1 have "K * (K - 1) \<le> 46341 * 46340"
    by (intro mult_mono) simp_all
  moreover from assms K1 have "0 \<le> K * (K - 1)"
    by simp
  ultimately have "int32 (K * (K - 1)) = K * (K - 1)"
    by (intro int32_id) simp_all
  moreover from assms K1(1) have "int32 (K - 1) = K - 1"
    by (intro int32_id) simp_all
  ultimately show ?thesis
    using \<open>0 \<le> K * (K - 1)\<close> by (simp add: k_choose_2_def signed_divide_int_def sgn_if)
qed

text \<open>
  The loops with \<open>lp\<close>, with \<open>lp\<close> dropped, are the loops without it: same reads, same
  writes, the same undefined read if there is one.
\<close>

lemma inner_loop_lp_drop:
  "map_option (\<lambda>(x', k', s', lp'). (x', k', s')) (inner_loop_lp l z i j (x, k, s, lp))
     = inner_loop z i j (x, k, s)"
proof (induction l z i j "(x, k, s, lp)" arbitrary: x k s lp rule: inner_loop_lp.induct)
  case (1 l z i j x k s lp)
  show ?case
  proof (cases "j < i \<and> k < length z")
    case True
    then have "j < i" and "k < length z" by simp_all
    from "1.hyps" [OF this refl refl refl] True show ?thesis
      by (simp add: inner_loop_lp.simps [of l z i j] inner_loop.simps [of z i j] Let_def)
  next
    case False
    then show ?thesis
      by (auto simp: inner_loop_lp.simps [of l z i j] inner_loop.simps [of z i j])
  qed
qed

lemma outer_loop_lp_drop:
  "map_option (\<lambda>(x', k', lp'). (x', k')) (outer_loop_lp l z K i (x, k, lp))
     = outer_loop z K i (x, k)"
proof (induction l z K i "(x, k, lp)" arbitrary: x k lp rule: outer_loop_lp.induct)
  case (1 l z K i x k lp)
  show ?case
  proof (cases "i < K \<and> k < length z")
    case True
    then have iK: "i < K" and kz: "k < length z" by simp_all
    let ?x1 = "coeffRef_set x i 0 (z ! k)"
    let ?s = "square (coeff ?x1 i 0)"
    show ?thesis
    proof (cases "inner_loop_lp l z i 1 (?x1, k + 1, ?s, lp)")
      case None
      with inner_loop_lp_drop [of l z i 1 ?x1 "k + 1" ?s lp]
      have "inner_loop z i 1 (?x1, k + 1, ?s) = None" by simp
      with None iK kz show ?thesis
        by (simp add: outer_loop_lp.simps [of l z K i] outer_loop.simps [of z K i] Let_def)
    next
      case (Some r)
      obtain x2 k2 s2 lp2 where r: "r = (x2, k2, s2, lp2)"
        by (cases r) auto
      with Some inner_loop_lp_drop [of l z i 1 ?x1 "k + 1" ?s lp]
      have inner: "inner_loop z i 1 (?x1, k + 1, ?s) = Some (x2, k2, s2)" by simp
      from "1.hyps" [OF iK kz refl refl Some [unfolded r] refl refl refl] Some r inner iK kz
      show ?thesis
        by (simp add: outer_loop_lp.simps [of l z K i] outer_loop.simps [of z K i] Let_def)
    qed
  next
    case False
    then show ?thesis
      by (auto simp: outer_loop_lp.simps [of l z K i] outer_loop.simps [of z K i])
  qed
qed

text \<open>
  The reads of \<open>z\<close>. Each read is at \<open>k\<close> and is followed by \<open>k++\<close>; \<open>k\<close> starts
  at 0. The inner loop from \<open>j\<close> reads \<open>i - j\<close> coefficients, the outer loop from \<open>i\<close>
  reads \<open>i + ... + (K - 1)\<close>. When \<open>z\<close> has room for them, no read is undefined.
\<close>

lemma inner_loop_reads:
  "j \<le> i \<Longrightarrow> k + (i - j) \<le> length z \<Longrightarrow>
   \<exists>x' s'. inner_loop z i j (x, k, s) = Some (x', k + (i - j), s')"
proof (induction z i j "(x, k, s)" arbitrary: x k s rule: inner_loop.induct)
  case (1 z i j x k s)
  show ?case
  proof (cases "j < i")
    case True
    with "1.prems" have kz: "k < length z" by simp
    let ?x' = "coeffRef_set x i j (z ! k * sqrt (1 - s))"
    from True "1.prems"
    have "\<exists>x' s'. inner_loop z i (j + 1) (?x', k + 1, s + square (coeff ?x' i j))
                    = Some (x', k + 1 + (i - (j + 1)), s')"
      by (intro "1.hyps" [OF True kz refl refl]) simp_all
    moreover from True have "k + 1 + (i - (j + 1)) = k + (i - j)"
      by simp
    ultimately show ?thesis
      using True kz by (simp add: inner_loop.simps [of z i j] Let_def)
  next
    case False
    then have "inner_loop z i j (x, k, s) = Some (x, k, s)"
      by (subst inner_loop.simps) simp
    with False "1.prems" show ?thesis
      by simp
  qed
qed

lemma outer_loop_reads:
  "1 \<le> i \<Longrightarrow> i \<le> K \<Longrightarrow> 2 * k + K * (K - 1) \<le> 2 * length z + i * (i - 1) \<Longrightarrow>
   \<exists>x' k'. outer_loop z K i (x, k) = Some (x', k')"
proof (induction z K i "(x, k)" arbitrary: x k rule: outer_loop.induct)
  case (1 z K i x k)
  show ?case
  proof (cases "i < K")
    case True
    from "1.prems" obtain n where n: "i = Suc n"
      by (cases i) auto
    from True obtain m where m: "K = Suc m" and im: "i \<le> m"
      by (cases K) auto
    from im have "i * (i + 1) \<le> m * (m + 1)"
      by (intro mult_le_mono) simp_all
    with m have "i * (i + 1) \<le> K * (K - 1)"
      by (simp add: mult.commute)
    with n have "i * (i - 1) + 2 * i \<le> K * (K - 1)"
      by simp
    with "1.prems"(3) have room: "k + i \<le> length z"
      by simp
    with "1.prems"(1) have kz: "k < length z"
      by simp
    let ?x1 = "coeffRef_set x i 0 (z ! k)"
    from room "1.prems"(1) obtain x2 s2 where
      inner: "inner_loop z i 1 (?x1, k + 1, square (coeff ?x1 i 0)) = Some (x2, k + 1 + (i - 1), s2)"
      using inner_loop_reads [of 1 i "k + 1" z ?x1 "square (coeff ?x1 i 0)"] by auto
    from "1.prems"(1) have k2: "k + 1 + (i - 1) = k + i"
      by simp
    from "1.prems"(3) n have "2 * (k + i) + K * (K - 1) \<le> 2 * length z + (i + 1) * (i + 1 - 1)"
      by simp
    with True
    have "\<exists>x' k'. outer_loop z K (i + 1) (coeffRef_set x2 i i (sqrt (1 - s2)), k + i) = Some (x', k')"
      by (intro "1.hyps" [OF True kz refl refl inner [unfolded k2] refl refl]) simp_all
    with True kz inner k2 show ?thesis
      by (simp add: outer_loop.simps [of z K i] Let_def)
  next
    case False
    then have "outer_loop z K i (x, k) = Some (x, k)"
      by (subst outer_loop.simps) simp
    then show ?thesis
      by simp
  qed
qed

lemma cholesky_no_undefined_read:
  assumes "0 < K" and "int (length z) = (K * (K - 1)) div 2"
  shows "\<exists>x' k'. outer_loop z (nat K) 1 (x, 0) = Some (x', k')"
proof -
  from assms(1) obtain m where K: "K = int (Suc m)"
    by (metis Suc_pred' nat_0_less_mult_iff nat_int of_nat_0_less_iff pos_int_cases zero_less_one)
  have "even (Suc m * m)"
    by simp
  then obtain h where h: "Suc m * m = 2 * h"
    by (elim evenE)
  have "K * (K - 1) = int (Suc m * m)"
    by (simp add: K algebra_simps)
  with h assms(2) have "int (length z) = int h"
    by simp
  then have "2 * length z = Suc m * (Suc m - 1)"
    using h by simp
  then have "\<exists>x' k'. outer_loop z (Suc m) 1 (x, 0) = Some (x', k')"
    by (intro outer_loop_reads) simp_all
  moreover have "nat K = Suc m"
    unfolding K by (rule nat_int)
  ultimately show ?thesis
    by simp
qed

text \<open>
  When \<open>y.size()\<close> differs from the \<open>k_choose_2\<close> the code computes, both overloads
  raise before anything else is done, and \<open>lp\<close> keeps its value.
\<close>

lemma size_mismatch_raises:
  assumes "int (length y) \<noteq> k_choose_2 K"
  shows "cholesky_corr_constrain corr_constrain y K
           = Inl (SizeMismatch ''cholesky_corr_constrain'' ''y.size()'' (int (length y))
                    ''k_choose_2'' (k_choose_2 K))"
    and "cholesky_corr_constrain_lp corr_constrain_lp log1m y K lp
           = (Inl (SizeMismatch ''cholesky_corr_constrain'' ''y.size()'' (int (length y))
                     ''k_choose_2'' (k_choose_2 K)), lp)"
  using assms
  by (simp_all add: cholesky_corr_constrain_def cholesky_corr_constrain_lp_def
      check_size_match_def)

section \<open>Lemmas on double arithmetic and \<open>log_mix\<close>\<close>

text \<open>
  NaN is absorbing. \<open>exp(-999)\<close> is below half the smallest subnormal number, since
  \<open>e^999 \<ge> (5/2)^999 \<ge> 2^1075\<close>, and underflows to 0; \<open>exp(294967296)\<close> overflows.
\<close>

lemma dmul_NaN [simp]: "dmul a NaN = NaN"
  by (cases a) simp_all

lemma dadd_NaN [simp]: "dadd a NaN = NaN"
  by (cases a) simp_all

lemma double_of_real_0 [simp]: "double_of_real 0 = Fin 0"
  by (simp add: double_of_real_def)

lemma double_of_real_in_range:
  "\<bar>r\<bar> < 2 ^ 1024 - 2 ^ 970 \<Longrightarrow> 1 < \<bar>r\<bar> * 2 ^ 1075 \<Longrightarrow> double_of_real r = Fin r"
  by (auto simp: double_of_real_def abs_if split: if_splits)

lemma exp_1_ge: "5 / 2 \<le> exp (1::real)"
  using exp_lower_Taylor_quadratic [of "1::real"] by simp

lemma exp_999_large: "2 ^ 1075 \<le> exp (999::real)"
proof -
  have "(2::real) ^ 1075 \<le> 2 ^ (9 * 142)"
    by (rule power_increasing) simp_all
  also have "\<dots> = ((2::real) ^ 9) ^ 142"
    by (rule power_mult)
  also have "\<dots> \<le> (((5 / 2)::real) ^ 7) ^ 142"
    by (rule power_mono) (simp_all add: power_divide)
  also have "\<dots> = ((5 / 2)::real) ^ (7 * 142)"
    by (rule power_mult [symmetric])
  also have "\<dots> \<le> ((5 / 2)::real) ^ 999"
    by (rule power_increasing) simp_all
  also have "\<dots> \<le> exp (1::real) ^ 999"
    using exp_1_ge by (intro power_mono) simp_all
  also have "\<dots> = exp (of_nat 999 * (1::real))"
    by (rule exp_of_nat_mult [symmetric])
  finally show ?thesis by simp
qed

lemma exp_underflow: "double_of_real (exp (- 999)) = Fin 0"
proof -
  have pos: "0 < exp (- 999 :: real)" by simp
  have "exp (- 999 :: real) * 2 ^ 1075 = 2 ^ 1075 / exp 999"
    by (simp add: exp_minus divide_inverse mult.commute)
  also have "\<dots> \<le> 1"
    using exp_999_large by simp
  finally have small: "\<bar>exp (- 999 :: real)\<bar> * 2 ^ 1075 \<le> 1"
    by simp
  have "exp (- 999 :: real) \<le> 1" by simp
  also have "(1::real) < 2 ^ 1024 - 2 ^ 970" by simp
  finally have "\<not> 2 ^ 1024 - 2 ^ 970 \<le> exp (- 999 :: real)" by simp
  moreover have "- (2 ^ 1024 - 2 ^ 970) < (0::real)"
    by simp
  with pos have "\<not> exp (- 999 :: real) \<le> - (2 ^ 1024 - 2 ^ 970)"
    by linarith
  ultimately show ?thesis
    using small by (simp add: double_of_real_def)
qed

lemma exp_nat_large:
  assumes "1024 \<le> n"
  shows "2 ^ 1024 \<le> exp (real n)"
proof -
  have "(2::real) ^ 1024 \<le> 2 ^ n"
    using assms by (intro power_increasing) simp_all
  also have "\<dots> \<le> exp (1::real) ^ n"
    using exp_1_ge by (intro power_mono) simp_all
  also have "\<dots> = exp (of_nat n * (1::real))"
    by (rule exp_of_nat_mult [symmetric])
  finally show ?thesis by simp
qed

lemma exp_overflow: "double_of_real (exp 294967296) = PosInf"
proof -
  have "2 ^ 1024 \<le> exp (real (294967296::nat))"
    by (rule exp_nat_large) simp
  then have "2 ^ 1024 \<le> exp (294967296::real)"
    by simp
  moreover have "(2::real) ^ 1024 - 2 ^ 970 \<le> 2 ^ 1024"
    by simp
  ultimately have "2 ^ 1024 - 2 ^ 970 \<le> exp (294967296::real)"
    by (rule order_trans [rotated])
  then show ?thesis
    by (simp add: double_of_real_def)
qed


lemma partial_deriv_array_unfold:
  "partial_deriv_array (Suc 0) = [FV \<lparr>val_f = Fin 0, d_f = Fin 0\<rparr>]"
  "partial_deriv_array 2 = [FV \<lparr>val_f = Fin 0, d_f = Fin 0\<rparr>, FV \<lparr>val_f = Fin 0, d_f = Fin 0\<rparr>]"
  "partial_deriv_array 3 = [FV \<lparr>val_f = Fin 0, d_f = Fin 0\<rparr>, FV \<lparr>val_f = Fin 0, d_f = Fin 0\<rparr>,
                            FV \<lparr>val_f = Fin 0, d_f = Fin 0\<rparr>]"
  by (simp_all add: partial_deriv_array_def numeral_2_eq_2 numeral_3_eq_3)

lemma list_update_2: "[a, b, c][2 := v] = [a, b, v]"
  by (simp add: numeral_2_eq_2)

text \<open>
  What holds of the arguments of \<open>exp\<close>: the helper calls it on \<open>lambda2 - lambda1\<close>, and
  for finite \<open>double\<close> or \<open>fvar\<close> lambdas every overload passes the smaller minus
  the larger, which is not positive.
\<close>

lemma helper_exp_calls:
  "fst (log_mix_partial_helper theta lambda1 lambda2 partials_array)
     = fst (exp_s (minus_s lambda2 lambda1))"
  by (simp add: log_mix_partial_helper_def Let_def case_prod_beta)

lemma dsub_nonpositive: "x \<le> y \<Longrightarrow> arith_ge (Fin 0) (dsub (Fin x) (Fin y))"
  by (simp add: dsub_def double_of_real_def)

lemma log_mix_fff_exp_nonpositive:
  assumes "val_f lambda1 = Fin a" and "val_f lambda2 = Fin b"
  shows "\<forall>e \<in> set (fst (log_mix_fff log_mix_prim theta lambda1 lambda2)). arith_ge (Fin 0) e"
  using assms
  by (simp add: log_mix_fff_def case_prod_beta helper_exp_calls minus_s_def fvar_minus_def
      dsub_nonpositive)

lemma log_mix_ffp_exp_nonpositive:
  assumes "val_f lambda1 = Fin a" and "lambda2 = PDouble (Fin b)"
  shows "\<forall>e \<in> set (fst (log_mix_ffp log_mix_prim theta lambda1 lambda2)). arith_ge (Fin 0) e"
  using assms
  by (simp add: log_mix_ffp_def case_prod_beta helper_exp_calls minus_s_def fvar_minus_def
      dsub_nonpositive)

lemma log_mix_fpf_exp_nonpositive:
  assumes "lambda1 = PDouble (Fin a)" and "val_f lambda2 = Fin b"
  shows "\<forall>e \<in> set (fst (log_mix_fpf log_mix_prim theta lambda1 lambda2)). arith_ge (Fin 0) e"
  using assms
  by (simp add: log_mix_fpf_def case_prod_beta helper_exp_calls minus_s_def fvar_minus_def
      dsub_nonpositive)

lemma log_mix_pff_exp_nonpositive:
  assumes "val_f lambda1 = Fin a" and "val_f lambda2 = Fin b"
  shows "\<forall>e \<in> set (fst (log_mix_pff log_mix_prim theta lambda1 lambda2)). arith_ge (Fin 0) e"
  using assms
  by (simp add: log_mix_pff_def case_prod_beta helper_exp_calls minus_s_def fvar_minus_def
      dsub_nonpositive)

lemma log_mix_fpp_exp_nonpositive:
  assumes "lambda1 = PDouble (Fin a)" and "lambda2 = PDouble (Fin b)"
  shows "\<forall>e \<in> set (fst (log_mix_fpp log_mix_prim theta lambda1 lambda2)). arith_ge (Fin 0) e"
  using assms
  by (simp add: log_mix_fpp_def case_prod_beta helper_exp_calls minus_s_def fvar_minus_def
      dsub_nonpositive)

lemma log_mix_pfp_exp_nonpositive:
  assumes "val_f lambda1 = Fin a" and "lambda2 = PDouble (Fin b)"
  shows "\<forall>e \<in> set (fst (log_mix_pfp log_mix_prim theta lambda1 lambda2)). arith_ge (Fin 0) e"
  using assms
  by (simp add: log_mix_pfp_def case_prod_beta helper_exp_calls minus_s_def fvar_minus_def
      dsub_nonpositive)

lemma log_mix_ppf_exp_nonpositive:
  assumes "lambda1 = PDouble (Fin a)" and "val_f lambda2 = Fin b"
  shows "\<forall>e \<in> set (fst (log_mix_ppf log_mix_prim theta lambda1 lambda2)). arith_ge (Fin 0) e"
  using assms
  by (simp add: log_mix_ppf_def case_prod_beta helper_exp_calls minus_s_def fvar_minus_def
      dsub_nonpositive)

text \<open>
  On the reals, the three quotients the helper forms with \<open>exp(lambda2 - lambda1)\<close> are
  the partials of the spec, and the call on \<open>(1 - theta, lambda2, lambda1)\<close> gives them with
  the sign and the order the second branch of each overload undoes. This is the algebra
  behind the slots; it says nothing on what \<open>double\<close> arithmetic makes of the quotients.
\<close>

lemma exp_shift: "exp (b - a) * exp a = exp (b::real)"
  by (simp flip: exp_add)

lemma helper_quotient:
  fixes t a b n :: real
  shows "n / (t + (1 - t) * exp (b - a)) = n * exp a / spec_denominator t a b"
proof -
  have "spec_denominator t a b = t * exp a + (1 - t) * (exp (b - a) * exp a)"
    by (simp only: spec_denominator_def exp_shift)
  also have "\<dots> = (t + (1 - t) * exp (b - a)) * exp a"
    by (simp add: algebra_simps)
  finally have "n * exp a / spec_denominator t a b
                  = n * exp a / ((t + (1 - t) * exp (b - a)) * exp a)"
    by simp
  also have "\<dots> = n / (t + (1 - t) * exp (b - a))"
    by simp
  finally show ?thesis by simp
qed

lemma helper_d_theta:
  "(1 - exp (b - a)) / (t + (1 - t) * exp (b - a)) = spec_d_theta t a b"
proof -
  have "(1 - exp (b - a)) * exp a = exp a - exp b"
    by (simp add: left_diff_distrib exp_shift)
  then show ?thesis
    by (simp only: helper_quotient spec_d_theta_def)
qed

lemma helper_d_lambda1:
  "t / (t + (1 - t) * exp (b - a)) = spec_d_lambda1 t a b"
  by (simp only: helper_quotient spec_d_lambda1_def)

lemma helper_d_lambda2:
  "(1 - t) * exp (b - a) / (t + (1 - t) * exp (b - a)) = spec_d_lambda2 t a b"
proof -
  have "(1 - t) * exp (b - a) * exp a = (1 - t) * exp b"
    by (simp only: mult.assoc exp_shift)
  then show ?thesis
    by (simp only: helper_quotient spec_d_lambda2_def)
qed

lemma swap_denominator: "spec_denominator (1 - t) b a = spec_denominator t a b"
  by (simp add: spec_denominator_def)

lemma swap_d_theta: "spec_d_theta (1 - t) b a = - spec_d_theta t a b"
  by (simp add: spec_d_theta_def swap_denominator minus_divide_left)

lemma swap_d_lambda1: "spec_d_lambda1 (1 - t) b a = spec_d_lambda2 t a b"
  by (simp add: spec_d_lambda1_def spec_d_lambda2_def swap_denominator)

lemma swap_d_lambda2: "spec_d_lambda2 (1 - t) b a = spec_d_lambda1 t a b"
  by (simp add: spec_d_lambda1_def spec_d_lambda2_def swap_denominator)

text \<open>The partial in \<open>theta\<close> that the spec's formula gives at the two inputs used below.\<close>

lemma spec_d_theta_edge: "spec_d_theta 0 1000 1 = exp 999 - 1"
proof -
  have "exp (1000::real) = exp 999 * exp 1"
    by (simp flip: exp_add)
  then show ?thesis
    by (simp add: spec_d_theta_def spec_denominator_def diff_divide_distrib)
qed

lemma spec_d_theta_finite: "spec_d_theta (1 / 2) 4000000000 0 < 2"
proof -
  have "0 < (1 / 2) * exp (4000000000::real) + (1 - 1 / 2) * exp 0"
    by (simp add: add_pos_pos)
  then show ?thesis
    by (simp add: spec_d_theta_def spec_denominator_def divide_less_eq)
qed

text \<open>The facts that evaluate the helper on given arguments.\<close>

lemmas eval_defs =
  log_mix_partial_helper_def Let_def promote_args_t_def is_same_def convert_to_def
  partial_deriv_array_unfold list_update_2 minus_s_def plus_s_def times_s_def divide_s_def
  fvar_minus_def fvar_plus_def fvar_times_def fvar_divide_def fvar_exp_def dsub_def
  double_of_real_in_range exp_underflow exp_overflow


section \<open>Properties of \<open>log_mix\<close>\<close>

text \<open>
  The code breaks C1 at the edge of the domain of \<open>theta\<close>. For \<open>theta = 0\<close>,
  \<open>lambda1 = 1000\<close>, \<open>lambda2 = 1\<close> and any tangents, \<open>exp(lambda2 - lambda1)\<close>
  underflows to 0, the denominator \<open>theta + (1 - theta) * 0\<close> is 0, its inverse is infinite
  and the partials in \<open>lambda1\<close> and \<open>lambda2\<close> are \<open>0 * \<infinity>\<close>, NaN: the derivative
  of the result is NaN. The formulas of the spec give \<open>e^999 - 1\<close>, 0 and 1 for the three
  partials.
\<close>

theorem log_mix_fff_nan_at_theta_zero:
  "d_f (snd (log_mix_fff log_mix_prim \<lparr>val_f = Fin 0, d_f = dt\<rparr> \<lparr>val_f = Fin 1000, d_f = d1\<rparr>
               \<lparr>val_f = Fin 1, d_f = d2\<rparr>)) = NaN \<and>
   spec_d_theta 0 1000 1 = exp 999 - 1 \<and>
   spec_d_lambda1 0 1000 1 = 0 \<and> spec_d_lambda2 0 1000 1 = 1"
  by (simp add: log_mix_fff_def eval_defs spec_d_theta_edge spec_d_lambda1_def
      spec_d_lambda2_def spec_denominator_def)

text \<open>
  The code breaks C2 for integer arguments. In the overload with a plain
  \<open>lambda1\<close> and a plain \<open>lambda2\<close> the helper subtracts in the type of the two: for
  \<open>lambda1 = 4000000000u\<close> and \<open>lambda2 = 0u\<close> the branch \<open>lambda1 > lambda2\<close> is
  taken, \<open>lambda2 - lambda1\<close> wraps to 294967296, and that positive number is what
  \<open>exp\<close> receives; its result is infinite. The same holds for the \<open>int\<close> arguments
  \<open>lambda1 = 2000000000\<close>, \<open>lambda2 = -2000000000\<close>.
\<close>

theorem log_mix_fpp_exp_argument_wraps:
  "fst (log_mix_fpp log_mix_prim \<lparr>val_f = Fin (1 / 2), d_f = dt\<rparr>
          (PUnsigned 4000000000) (PUnsigned 0)) = [Fin 294967296] \<and>
   fst (log_mix_fpp log_mix_prim \<lparr>val_f = Fin (1 / 2), d_f = dt\<rparr>
          (PInt 2000000000) (PInt (- 2000000000))) = [Fin 294967296] \<and>
   dexp (Fin 294967296) = PosInf"
  by (simp add: log_mix_fpp_def eval_defs)

text \<open>
  The code breaks C3 on the same two inputs. With a plain \<open>theta = 0\<close>, a plain
  \<open>lambda1 = 1000\<close> and an \<open>fvar\<close> \<open>lambda2\<close> of value 1, the only partial, that in
  \<open>lambda2\<close>, is \<open>0 * \<infinity>\<close>: the derivative is NaN where the formula of the spec gives
  the tangent of \<open>lambda2\<close> times 1. With an \<open>fvar\<close> \<open>theta\<close> of value 1/2 and the
  unsigned \<open>lambda1 = 4000000000\<close>, \<open>lambda2 = 0\<close>, the wrapped difference makes
  \<open>exp\<close> infinite and the partial in \<open>theta\<close> is \<open>-\<infinity> * 0\<close>: NaN again, where the
  formula of the spec gives a partial below 2.
\<close>

theorem log_mix_mixed_nan:
  "d_f (snd (log_mix_ppf log_mix_prim (PDouble (Fin 0)) (PDouble (Fin 1000))
               \<lparr>val_f = Fin 1, d_f = d2\<rparr>)) = NaN \<and>
   spec_d_lambda2 0 1000 1 = 1 \<and>
   d_f (snd (log_mix_fpp log_mix_prim \<lparr>val_f = Fin (1 / 2), d_f = dt\<rparr>
               (PUnsigned 4000000000) (PUnsigned 0))) = NaN \<and>
   spec_d_theta (1 / 2) 4000000000 0 < 2"
  by (simp add: log_mix_ppf_def log_mix_fpp_def eval_defs spec_d_lambda2_def
      spec_denominator_def spec_d_theta_finite)


section \<open>Properties of \<open>cholesky_corr_constrain\<close> and \<open>eigenvectors\<close>\<close>

text \<open>
  C6. The overload that increments \<open>lp\<close> and the overload without \<open>lp\<close> have the same
  outcome for every \<open>y\<close> and \<open>K\<close>, be it a matrix or an exception: the duplicated loops
  differ in \<open>lp\<close> only. For \<open>K \<ge> 0\<close> and \<open>y.size() = K * (K - 1) / 2\<close> that outcome is
  a matrix, the same for both, as long as \<open>K * (K - 1)\<close> fits into an \<open>int\<close>
  (\<open>K \<le> 46341\<close>). The two overloads of \<open>corr_constrain\<close> are parameters, assumed to
  return the same vector \<open>z\<close> for \<open>y\<close>, of the size of \<open>y\<close>.
\<close>

theorem cholesky_corr_constrain_lp_same_matrix:
  assumes "fst (corr_constrain_lp y lp) = corr_constrain y"
  shows "fst (cholesky_corr_constrain_lp corr_constrain_lp log1m y K lp)
           = cholesky_corr_constrain corr_constrain y K \<and>
         (0 \<le> K \<and> K \<le> 46341 \<and> int (length y) = (K * (K - 1)) div 2 \<and>
          length (corr_constrain y) = length y \<longrightarrow>
            (\<exists>x. cholesky_corr_constrain corr_constrain y K = Inr x \<and>
                 fst (cholesky_corr_constrain_lp corr_constrain_lp log1m y K lp) = Inr x))"
proof -
  obtain z lp1 where cc: "corr_constrain_lp y lp = (z, lp1)"
    by (cases "corr_constrain_lp y lp") auto
  with assms have z: "corr_constrain y = z" by simp
  let ?x0 = "coeffRef_set (setZero (Matrix (nat K) (nat K))) 0 0 1"
  have same: "fst (cholesky_corr_constrain_lp corr_constrain_lp log1m y K lp)
                = cholesky_corr_constrain corr_constrain y K"
  proof (cases "outer_loop_lp log1m z (nat K) 1 (?x0, 0, lp1)")
    case None
    with outer_loop_lp_drop [of log1m z "nat K" 1 ?x0 0 lp1]
    have "outer_loop z (nat K) 1 (?x0, 0) = None" by simp
    with None cc z show ?thesis
      by (simp add: cholesky_corr_constrain_lp_def cholesky_corr_constrain_def Let_def
          split: sum.splits)
  next
    case (Some r)
    obtain x' k' lp' where r: "r = (x', k', lp')"
      by (cases r) auto
    with Some outer_loop_lp_drop [of log1m z "nat K" 1 ?x0 0 lp1]
    have "outer_loop z (nat K) 1 (?x0, 0) = Some (x', k')" by simp
    with Some r cc z show ?thesis
      by (simp add: cholesky_corr_constrain_lp_def cholesky_corr_constrain_def Let_def
          split: sum.splits)
  qed
  have "\<exists>x. cholesky_corr_constrain corr_constrain y K = Inr x"
    if K: "0 \<le> K" "K \<le> 46341" and size: "int (length y) = (K * (K - 1)) div 2"
      and len: "length (corr_constrain y) = length y"
  proof (cases "K = 0")
    case True
    with size show ?thesis
      by (simp add: cholesky_corr_constrain_def check_size_match_def k_choose_2_exact)
  next
    case False
    with K have "0 < K" by simp
    moreover from size len z have "int (length z) = (K * (K - 1)) div 2" by simp
    ultimately obtain x' k' where "outer_loop z (nat K) 1 (?x0, 0) = Some (x', k')"
      using cholesky_no_undefined_read by blast
    with K False size z show ?thesis
      by (simp add: cholesky_corr_constrain_def check_size_match_def k_choose_2_exact Let_def)
  qed
  with same show ?thesis by auto
qed

theorem cholesky_corr_constrain_lp_same_matrix_witness:
  "fst ((\<lambda>y lp. (map tanh y, lp + 1)) [1, 2, 3 :: real] 0) = map tanh [1, 2, 3] \<and>
   (0::int) \<le> 3 \<and> (3::int) \<le> 46341 \<and> int (length [1, 2, 3 :: real]) = (3 * (3 - 1)) div 2 \<and>
   length (map tanh [1, 2, 3 :: real]) = length [1, 2, 3 :: real] \<and>
   (\<exists>x. cholesky_corr_constrain (map tanh) [1, 2, 3] 3 = Inr x \<and>
        fst (cholesky_corr_constrain_lp (\<lambda>y lp. (map tanh y, lp + 1)) (\<lambda>s. ln (1 - s))
               [1, 2, 3] 3 0) = Inr x)"
proof -
  have z: "fst ((\<lambda>y lp. (map tanh y, lp + 1)) [1, 2, 3 :: real] 0) = map tanh [1, 2, 3]"
    by simp
  from cholesky_corr_constrain_lp_same_matrix
         [where K = 3 and y = "[1, 2, 3]" and lp = 0 and corr_constrain = "map tanh"
            and corr_constrain_lp = "\<lambda>y lp. (map tanh y, lp + 1)"
            and log1m = "\<lambda>s. ln (1 - s)", OF z]
  show ?thesis by auto
qed

text \<open>
  C7, as the code has it. \<open>cholesky_corr_constrain\<close> with \<open>K = 0\<close> and an empty \<open>y\<close>
  returns the 0 by 0 matrix without raising, in both overloads; \<open>eigenvectors\<close> does not
  accept the 0 by 0 matrix: its first statement, \<open>check_nonzero_size\<close>, raises.
\<close>

theorem zero_size_inputs:
  "cholesky_corr_constrain corr_constrain [] 0 = Inr \<lparr>rows = 0, cols = 0, coeffs = []\<rparr> \<and>
   fst (cholesky_corr_constrain_lp corr_constrain_lp log1m [] 0 lp)
     = Inr \<lparr>rows = 0, cols = 0, coeffs = []\<rparr> \<and>
   eigenvectors \<lparr>rows = 0, cols = 0, coeffs = []\<rparr> = Inl (NonzeroSizeError ''eigenvectors'' ''m'')"
  by (simp add: cholesky_corr_constrain_def cholesky_corr_constrain_lp_def check_size_match_def
      k_choose_2_def int32_def signed_divide_int_def Matrix_def eigenvectors_def
      check_nonzero_size_def split: prod.splits)

text \<open>
  C7, as the spec states it, fails on \<open>eigenvectors\<close>: the 0 by 0 matrix is rejected.
\<close>

theorem eigenvectors_zero_size_raises:
  "eigenvectors (Matrix 0 0) = Inl (NonzeroSizeError ''eigenvectors'' ''m'')"
  by (simp add: eigenvectors_def check_nonzero_size_def Matrix_def)

text \<open>
  The code breaks C9 for a large \<open>K\<close>. With \<open>K = 6697831\<close> and a \<open>y\<close> of size 5
  the sizes do not match, \<open>K * (K - 1) / 2\<close> being 22430466703365; but the product wraps
  to 10 in an \<open>int\<close>, \<open>k_choose_2\<close> is 5, the check passes, and neither overload raises
  the size mismatch.
\<close>

theorem cholesky_corr_constrain_int_overflow:
  "(6697831 * (6697831 - 1)) div 2 \<noteq> int (length [1, 2, 3, 4, 5 :: real]) \<and>
   k_choose_2 6697831 = int (length [1, 2, 3, 4, 5 :: real]) \<and>
   check_size_match ''cholesky_corr_constrain'' ''y.size()'' (int (length [1, 2, 3, 4, 5 :: real]))
     ''k_choose_2'' (k_choose_2 6697831) = Inr () \<and>
   (\<forall>i j. cholesky_corr_constrain corr_constrain [1, 2, 3, 4, 5] 6697831
            \<noteq> Inl (SizeMismatch ''cholesky_corr_constrain'' ''y.size()'' i ''k_choose_2'' j)) \<and>
   (\<forall>i j. fst (cholesky_corr_constrain_lp corr_constrain_lp log1m [1, 2, 3, 4, 5] 6697831 lp)
            \<noteq> Inl (SizeMismatch ''cholesky_corr_constrain'' ''y.size()'' i ''k_choose_2'' j))"
proof -
  have k: "k_choose_2 6697831 = 5"
    by (simp add: k_choose_2_def int32_def signed_divide_int_def)
  then show ?thesis
    by (simp add: cholesky_corr_constrain_def cholesky_corr_constrain_lp_def check_size_match_def
        Let_def split: option.splits prod.splits)
qed

section \<open>Properties of \<open>acosh\<close>\<close>

text \<open>
  C8. For every arithmetic input \<open>x\<close>: a NaN is returned as it is, without raising; a
  non-NaN value below 1 raises a domain error that names the function, the argument, the
  value and the bound 1; every other value gives the inverse hyperbolic cosine. So
  \<open>acosh\<close> raises if and only if \<open>x\<close> is not NaN and is below 1.
\<close>

theorem acosh_nan_domain:
  "(is_nan x \<longrightarrow> acosh w x = Inr x) \<and>
   (\<not> is_nan x \<and> arith_lt x (Fin 1) \<longrightarrow> acosh w x = Inl (DomainError ''acosh'' ''x'' x (Fin 1))) \<and>
   (\<not> is_nan x \<and> \<not> arith_lt x (Fin 1) \<longrightarrow> acosh w x = Inr (std_acosh x)) \<and>
   ((\<exists>e. acosh w x = Inl e) \<longleftrightarrow> \<not> is_nan x \<and> arith_lt x (Fin 1))"
  by (cases x) (auto simp: acosh_def check_greater_or_equal_def)

theorem acosh_nan_domain_witness:
  "is_nan NaN \<and> acosh False NaN = Inr NaN \<and>
   \<not> is_nan (Fin 0) \<and> arith_lt (Fin 0) (Fin 1) \<and>
   acosh False (Fin 0) = Inl (DomainError ''acosh'' ''x'' (Fin 0) (Fin 1)) \<and>
   \<not> is_nan (Fin 1) \<and> \<not> arith_lt (Fin 1) (Fin 1) \<and>
   acosh False (Fin 1) = Inr (Fin 0)"
  using acosh_nan_domain [of NaN False] acosh_nan_domain [of "Fin 0" False]
    acosh_nan_domain [of "Fin 1" False]
  by simp

section \<open>Properties of \<open>size_mvt\<close>\<close>

text \<open>
  C10. \<open>size_mvt\<close> of a Stan scalar (arithmetic, \<open>fvar\<close>, \<open>var\<close> of an arithmetic
  value, complex) throws \<open>std::invalid_argument\<close> and returns nothing; of a single Eigen
  matrix or vector it returns 1; of a \<open>std::vector\<close> of Eigen matrices it returns the
  number of elements, 0 for the empty vector.
\<close>

theorem size_mvt_overloads:
  "(is_stan_scalar (type_of x) \<longrightarrow>
      size_mvt x = Some (Inl (InvalidArgument ''size_mvt passed to an unrecognized type.''))) \<and>
   is_stan_scalar Arithmetic \<and> is_stan_scalar (Fvar T) \<and> is_stan_scalar (VarValue Arithmetic) \<and>
   is_stan_scalar (Complex T) \<and>
   size_mvt (EigenV T r c) = Some (Inr 1) \<and>
   size_mvt (StdVectorV (EigenMatrix T) xs) = Some (Inr (length xs)) \<and>
   size_mvt (StdVectorV (EigenMatrix T) []) = Some (Inr 0)"
  by (simp add: is_stan_scalar_def)

theorem size_mvt_overloads_witness:
  "is_stan_scalar (type_of (ScalarV (Fvar Arithmetic))) \<and>
   size_mvt (ScalarV (Fvar Arithmetic))
     = Some (Inl (InvalidArgument ''size_mvt passed to an unrecognized type.'')) \<and>
   size_mvt (EigenV Arithmetic 3 1) = Some (Inr 1) \<and>
   size_mvt (StdVectorV (EigenMatrix Arithmetic) [EigenV Arithmetic 2 2, EigenV Arithmetic 2 2])
     = Some (Inr 2)"
  using size_mvt_overloads [of "ScalarV (Fvar Arithmetic)" Arithmetic 3 1
      "[EigenV Arithmetic 2 2, EigenV Arithmetic 2 2]"]
  by (simp add: is_stan_scalar_def)

end
